theory Spec2Isabelle
  imports Complex_Main
begin

section \<open>RunMMC: marshalling a scene into a photon-simulation configuration\<close>

text \<open>
  The development follows \<^verbatim>\<open>runmmc.py\<close>. Python floats and the entries of numpy
  arrays are idealised as real numbers: rounding, infinities and NaN are outside the
  model, so every statement below is about the exact arithmetic the formulas denote.
\<close>

subsection \<open>The numpy operations used by the direction conversion\<close>

type_synonym matrix = "real list list"

text \<open>\<^verbatim>\<open>M.transpose()\<close> of a two-dimensional array: row \<open>j\<close> of the result is column \<open>j\<close>.\<close>

definition np_transpose :: "matrix \<Rightarrow> matrix" where
  "np_transpose M = (case M of [] \<Rightarrow> []
     | r # _ \<Rightarrow> map (\<lambda>j. map (\<lambda>row. row ! j) M) [0 ..< length r])"

text \<open>\<^verbatim>\<open>np.dot(A, B)\<close> of two two-dimensional arrays: rows of \<open>A\<close> against columns of \<open>B\<close>.\<close>

definition np_dot :: "matrix \<Rightarrow> matrix \<Rightarrow> matrix" where
  "np_dot A B = map (\<lambda>row. map (\<lambda>col. sum_list (map2 (*) row col)) (np_transpose B)) A"

subsection \<open>quaternion2euler\<close>

type_synonym quat = "real \<times> real \<times> real \<times> real"

text \<open>
  The nested function of \<^verbatim>\<open>preparemmc\<close>: the argument is unpacked as \<open>w, x, y, z\<close>, the
  matrix \<open>R\<close> is built row by row, multiplied with the column \<open>[[0], [0], [-1]]\<close>, and
  row \<open>0\<close> of the transposed product is returned as a list.
\<close>

definition quaternion2euler :: "quat \<Rightarrow> real list" where
  "quaternion2euler direction = (case direction of (w, x, y, z) \<Rightarrow>
     let R = [[1 - 2 * y ^ 2 - 2 * z ^ 2, 2 * x * y - 2 * z * w, 2 * x * z + 2 * y * w],
              [2 * x * y + 2 * z * w, 1 - 2 * x ^ 2 - 2 * z ^ 2, 2 * y * z - 2 * x * w],
              [2 * x * z - 2 * y * w, 2 * y * z + 2 * x * w, 1 - 2 * x ^ 2 - 2 * y ^ 2]];
         dir = np_transpose (np_dot R [[0], [0], [-1]]) ! 0
     in dir)"

subsection \<open>The rotation a quaternion stands for\<close>

type_synonym vec3 = "real \<times> real \<times> real"
type_synonym mat3 = "vec3 \<times> vec3 \<times> vec3"

text \<open>
  The textbook rotation matrix of a quaternion \<open>w + x i + y j + z k\<close>, written the way
  the references do (rows as triples), and the product of a matrix with a column.
\<close>

definition rotation_matrix :: "quat \<Rightarrow> mat3" where
  "rotation_matrix q = (case q of (w, x, y, z) \<Rightarrow>
     ((1 - 2 * (y * y + z * z), 2 * (x * y - z * w), 2 * (x * z + y * w)),
      (2 * (x * y + z * w), 1 - 2 * (x * x + z * z), 2 * (y * z - x * w)),
      (2 * (x * z - y * w), 2 * (y * z + x * w), 1 - 2 * (x * x + y * y))))"

definition inner3 :: "vec3 \<Rightarrow> vec3 \<Rightarrow> real" where
  "inner3 a b = (case a of (a1, a2, a3) \<Rightarrow> case b of (b1, b2, b3) \<Rightarrow>
     a1 * b1 + a2 * b2 + a3 * b3)"

definition mat_vec :: "mat3 \<Rightarrow> vec3 \<Rightarrow> vec3" where
  "mat_vec M v = (case M of (r1, r2, r3) \<Rightarrow> (inner3 r1 v, inner3 r2 v, inner3 r3 v))"

definition list_of_vec3 :: "vec3 \<Rightarrow> real list" where
  "list_of_vec3 v = (case v of (a, b, c) \<Rightarrow> [a, b, c])"

text \<open>Hamilton's product, the conjugate, and the conjugation \<open>q v q*\<close> of a pure quaternion.\<close>

definition qmul :: "quat \<Rightarrow> quat \<Rightarrow> quat" where
  "qmul p q = (case p of (a, b, c, d) \<Rightarrow> case q of (e, f, g, h) \<Rightarrow>
     (a * e - b * f - c * g - d * h,
      a * f + b * e + c * h - d * g,
      a * g - b * h + c * e + d * f,
      a * h + b * g - c * f + d * e))"

definition qconj :: "quat \<Rightarrow> quat" where
  "qconj q = (case q of (w, x, y, z) \<Rightarrow> (w, - x, - y, - z))"

definition qnorm2 :: "quat \<Rightarrow> real" where
  "qnorm2 q = (case q of (w, x, y, z) \<Rightarrow> w ^ 2 + x ^ 2 + y ^ 2 + z ^ 2)"

definition conjugate_by :: "quat \<Rightarrow> vec3 \<Rightarrow> quat" where
  "conjugate_by q v = (case v of (a, b, c) \<Rightarrow> qmul (qmul q (0, a, b, c)) (qconj q))"

definition norm3 :: "real list \<Rightarrow> real" where
  "norm3 v = sqrt (sum_list (map (\<lambda>c. c ^ 2) v))"


subsection \<open>Exceptions, and computations that change the world\<close>

datatype error =
    KeyError string
  | AttributeError
  | IndexError
  | ValueError
  | FileNotFoundError
  | FileExistsError
  | SolverError string

definition bind_e :: "error + 'a \<Rightarrow> ('a \<Rightarrow> error + 'b) \<Rightarrow> error + 'b" where
  "bind_e m f = (case m of Inl e \<Rightarrow> Inl e | Inr x \<Rightarrow> f x)"

subsection \<open>The host scene\<close>

text \<open>
  A custom property of a mesh data block: a number, a string or an array of numbers.
  Only an array has the method \<^verbatim>\<open>to_list\<close>.
\<close>

datatype pyval = Num real | Str string | Arr "real list"

definition to_list :: "pyval \<Rightarrow> error + real list" where
  "to_list v = (case v of Arr xs \<Rightarrow> Inr xs | _ \<Rightarrow> Inl AttributeError)"

text \<open>
  A scene object. The custom properties the operator subscripts are typed the way the
  add-on stores them (numbers for the optical coefficients and the unit, a string for the
  source type, arrays of numbers for the source parameters); \<open>None\<close> is an absent key.
  \<open>data\<close> holds the custom properties of the object's data block in key order, \<open>None\<close>
  when the object has no data block. \<open>rotation_quaternion\<close> is the value the host
  reports for the object once its rotation mode is \<^verbatim>\<open>QUATERNION\<close>.
\<close>

record object =
  name :: string
  location :: vec3
  rotation_mode :: string
  rotation_quaternion :: quat
  data :: "(string \<times> pyval) list option"
  prop_mua :: "real option"
  prop_mus :: "real option"
  prop_g :: "real option"
  prop_n :: "real option"
  prop_srctype :: "string option"
  prop_srcparam1 :: "real list option"
  prop_srcparam2 :: "real list option"
  prop_unitinmm :: "real option"

subsection \<open>The solver's configuration and result, and the files of the work folder\<close>

type_synonym volume = "nat list list list"

record cfg =
  cfg_vol :: volume
  cfg_prop :: "real list list"
  cfg_srctype :: string
  cfg_srcpos :: "real list"
  cfg_srcdir :: "real list"
  cfg_srcparam1 :: "real list"
  cfg_srcparam2 :: "real list"
  cfg_nphoton :: real
  cfg_unitinmm :: real
  cfg_tstart :: real
  cfg_tend :: real
  cfg_tstep :: real
  cfg_isreflect :: bool
  cfg_isnormalized :: bool
  cfg_method :: string
  cfg_outputtype :: string
  cfg_basisorder :: int
  cfg_debuglevel :: string
  cfg_gpuid :: string

text \<open>
  What \<^verbatim>\<open>pmcx.run\<close> returns: a dictionary that may hold a four-dimensional array under
  \<^verbatim>\<open>flux\<close> and a dictionary under \<^verbatim>\<open>stat\<close>; \<open>res_other\<close> stands for its remaining
  entries.
\<close>

record solver_result =
  res_flux :: "real list list list list option"
  res_stat :: "(string \<times> real) list option"
  res_other :: "(string \<times> real list) list"

text \<open>The variables of \<^verbatim>\<open>ImageMesh.mat\<close> that the operator reads.\<close>

record mat_file =
  mat_image :: "volume option"
  mat_scale :: "matrix option"

datatype file_content =
    MatFile mat_file
  | InfoFile "real list list" cfg
  | ResultFile solver_result
  | PlotFile "real list list list" matrix
  | OtherFile string

datatype path_kind = Absent | Directory | RegularFile

text \<open>
  The effects on the world outside the interpreter, in the order they happen. The
  \<^verbatim>\<open>print\<close> calls are not modelled.
\<close>

datatype event =
    Makedirs
  | Loadmat string
  | Save string file_content
  | Run cfg
  | Remove string
  | OrphansPurge bool

text \<open>
  The world the operator runs in: the objects of \<^verbatim>\<open>bpy.data.objects\<close> in collection
  order, the name of the active object (\<^verbatim>\<open>bpy.context.object\<close>), the work folder
  with its files by name, and the trace of effects. \<^verbatim>\<open>GetBPWorkFolder\<close> comes from the
  add-on's \<^verbatim>\<open>utils\<close> module and only names the folder, so the folder itself is part
  of the world: \<open>workdir\<close> says what is found at its path. Saving a file into an
  existing folder is taken to succeed.
\<close>

record world =
  objects :: "object list"
  active :: "string option"
  workdir :: path_kind
  files :: "string \<rightharpoonup> file_content"
  trace :: "event list"

type_synonym 'a io = "world \<Rightarrow> (error + 'a) \<times> world"

definition return_io :: "'a \<Rightarrow> 'a io" where
  "return_io x w = (Inr x, w)"

definition lift_io :: "error + 'a \<Rightarrow> 'a io" where
  "lift_io r w = (r, w)"

definition bind_io :: "'a io \<Rightarrow> ('a \<Rightarrow> 'b io) \<Rightarrow> 'b io" where
  "bind_io m f w = (case m w of (Inl e, w') \<Rightarrow> (Inl e, w') | (Inr x, w') \<Rightarrow> f x w')"

definition emit :: "event \<Rightarrow> world \<Rightarrow> world" where
  "emit ev w = w\<lparr>trace := trace w @ [ev]\<rparr>"

subsection \<open>Host, file and solver operations\<close>

text \<open>\<^verbatim>\<open>bpy.data.objects[nm]\<close>\<close>

definition get_object :: "world \<Rightarrow> string \<Rightarrow> error + object" where
  "get_object w nm = (case find (\<lambda>ob. name ob = nm) (objects w) of
     None \<Rightarrow> Inl (KeyError nm) | Some ob \<Rightarrow> Inr ob)"

text \<open>\<^verbatim>\<open>bpy.context.object\<close>, \<open>None\<close> when no object is active.\<close>

definition context_object :: "world \<Rightarrow> object option" where
  "context_object w = (case active w of None \<Rightarrow> None
     | Some nm \<Rightarrow> find (\<lambda>ob. name ob = nm) (objects w))"

text \<open>\<^verbatim>\<open>bpy.context.object.rotation_mode = 'QUATERNION'\<close>\<close>

definition set_context_rotation_mode :: "string \<Rightarrow> unit io" where
  "set_context_rotation_mode m w = (case context_object w of
     None \<Rightarrow> (Inl AttributeError, w)
   | Some act \<Rightarrow> (Inr (),
       w\<lparr>objects := map (\<lambda>ob. if name ob = name act then ob\<lparr>rotation_mode := m\<rparr> else ob)
                         (objects w)\<rparr>))"

text \<open>\<^verbatim>\<open>bpy.context.object.rotation_quaternion\<close>\<close>

definition context_rotation_quaternion :: "world \<Rightarrow> error + quat" where
  "context_rotation_quaternion w = (case context_object w of
     None \<Rightarrow> Inl AttributeError | Some act \<Rightarrow> Inr (rotation_quaternion act))"

text \<open>\<^verbatim>\<open>if not os.path.isdir(outputdir): os.makedirs(outputdir)\<close>; a new folder is empty.\<close>

definition makedirs :: "unit io" where
  "makedirs w = (case workdir w of
     Absent \<Rightarrow> (Inr (), emit Makedirs (w\<lparr>workdir := Directory, files := Map.empty\<rparr>))
   | _ \<Rightarrow> (Inl FileExistsError, w))"

definition ensure_workdir :: "unit io" where
  "ensure_workdir w = (if workdir w \<noteq> Directory then makedirs w else (Inr (), w))"

text \<open>\<^verbatim>\<open>scipy.io.loadmat(os.path.join(outputdir, nm))\<close>\<close>

definition loadmat :: "string \<Rightarrow> mat_file io" where
  "loadmat nm w = (let w' = emit (Loadmat nm) w in
     if workdir w \<noteq> Directory then (Inl FileNotFoundError, w')
     else case files w nm of
       None \<Rightarrow> (Inl FileNotFoundError, w')
     | Some (MatFile m) \<Rightarrow> (Inr m, w')
     | Some _ \<Rightarrow> (Inl ValueError, w'))"

text \<open>\<^verbatim>\<open>jd.save(content, os.path.join(outputdir, nm))\<close>\<close>

definition jd_save :: "file_content \<Rightarrow> string \<Rightarrow> unit io" where
  "jd_save c nm w = (Inr (), emit (Save nm c) (w\<lparr>files := (files w)(nm \<mapsto> c)\<rparr>))"

text \<open>\<^verbatim>\<open>pmcx.run(cfg)\<close>: the external solver is a parameter of the model.\<close>

definition run_solver :: "(cfg \<Rightarrow> error + solver_result) \<Rightarrow> cfg \<Rightarrow> solver_result io" where
  "run_solver pmcx_run c w = (pmcx_run c, emit (Run c) w)"

text \<open>\<^verbatim>\<open>bpy.data.objects.remove(obj)\<close>\<close>

definition remove_object :: "object \<Rightarrow> unit io" where
  "remove_object ob w =
     (Inr (), emit (Remove (name ob)) (w\<lparr>objects := filter (\<lambda>o'. name o' \<noteq> name ob) (objects w)\<rparr>))"

text \<open>
  \<^verbatim>\<open>for obj in bpy.data.objects: bpy.data.objects.remove(obj)\<close>: the host's iterator
  has already moved to the next object when the body runs, so every object that was in
  the collection when the loop started is visited.
\<close>

fun remove_all :: "object list \<Rightarrow> unit io" where
  "remove_all [] = return_io ()"
| "remove_all (ob # obs) = bind_io (remove_object ob) (\<lambda>_. remove_all obs)"

text \<open>\<^verbatim>\<open>bpy.ops.outliner.orphans_purge(do_recursive=...)\<close>\<close>

definition orphans_purge :: "bool \<Rightarrow> unit io" where
  "orphans_purge do_recursive w = (Inr (), emit (OrphansPurge do_recursive) w)"

subsection \<open>The operator\<close>

text \<open>The properties of the operator that the dialog sets (\<^verbatim>\<open>self\<close> in the source); \<open>mmc_method\<close> is the property \<^verbatim>\<open>method\<close>.\<close>

record settings =
  tool :: string
  nphoton :: real
  tend :: real
  tstep :: real
  isreflect :: bool
  isnormalized :: bool
  basisorder :: int
  mmc_method :: string
  outputtype :: string
  gpuid :: string
  debuglevel :: string
  colormap :: string

text \<open>A subscript \<^verbatim>\<open>d[key]\<close> of a dictionary-like value: an absent key raises.\<close>

definition subscript :: "'a option \<Rightarrow> string \<Rightarrow> error + 'a" where
  "subscript v key = (case v of None \<Rightarrow> Inl (KeyError key) | Some x \<Rightarrow> Inr x)"

text \<open>
  The body of the \<^verbatim>\<open>try\<close>: every property of the data block of \<^verbatim>\<open>Iso2Mesh\<close> is
  appended as a list. The list is threaded through, since what was appended before an
  exception stays in \<^verbatim>\<open>parameters\<close>.
\<close>

fun append_props :: "(string \<times> pyval) list \<Rightarrow> real list list \<Rightarrow> error option \<times> real list list" where
  "append_props [] parameters = (None, parameters)"
| "append_props ((prop, v) # kvs) parameters = (case to_list v of
     Inl e \<Rightarrow> (Some e, parameters)
   | Inr row \<Rightarrow> append_props kvs (parameters @ [row]))"

definition try_iso2mesh :: "world \<Rightarrow> real list list \<Rightarrow> error option \<times> real list list" where
  "try_iso2mesh w parameters = (case get_object w ''Iso2Mesh'' of
     Inl e \<Rightarrow> (Some e, parameters)
   | Inr obj \<Rightarrow> (case data obj of
       None \<Rightarrow> (Some AttributeError, parameters)
     | Some kvs \<Rightarrow> append_props kvs parameters))"

text \<open>The body of the \<^verbatim>\<open>except\<close>: the loop over \<^verbatim>\<open>bpy.data.objects[0:-1]\<close>.\<close>

fun append_regions :: "object list \<Rightarrow> real list list \<Rightarrow> error + real list list" where
  "append_regions [] parameters = Inr parameters"
| "append_regions (obj # objs) parameters =
     (if prop_mua obj = None then append_regions objs parameters
      else bind_e (subscript (prop_mua obj) ''mua'') (\<lambda>mua.
           bind_e (subscript (prop_mus obj) ''mus'') (\<lambda>mus.
           bind_e (subscript (prop_g obj) ''g'') (\<lambda>g.
           bind_e (subscript (prop_n obj) ''n'') (\<lambda>n.
           append_regions objs (parameters @ [[mua, mus, g, n]]))))))"

definition gather_parameters :: "world \<Rightarrow> error + real list list" where
  "gather_parameters w = (case try_iso2mesh w [] of
     (None, parameters) \<Rightarrow> Inr parameters
   | (Some e, parameters) \<Rightarrow> append_regions (butlast (objects w)) parameters)"

text \<open>An entry \<^verbatim>\<open>M[i, j]\<close> of a two-dimensional array.\<close>

definition at2 :: "matrix \<Rightarrow> nat \<Rightarrow> nat \<Rightarrow> error + real" where
  "at2 M i j = (if i < length M \<and> j < length (M ! i) then Inr (M ! i ! j) else Inl IndexError)"

text \<open>
  An elementwise operation of numpy on two one-dimensional arrays: equal lengths pair
  up, an array of length one is broadcast, any other pair of shapes raises.
\<close>

definition np_elementwise :: "(real \<Rightarrow> real \<Rightarrow> real) \<Rightarrow> real list \<Rightarrow> real list \<Rightarrow> error + real list" where
  "np_elementwise f xs ys =
     (if length xs = length ys then Inr (map2 f xs ys)
      else if length xs = 1 then Inr (map (f (xs ! 0)) ys)
      else if length ys = 1 then Inr (map (\<lambda>x. f x (ys ! 0)) xs)
      else Inl ValueError)"

text \<open>Lines 105 to 111: \<open>move\<close>, \<open>scale\<close> and the dictionary \<open>cfg\<close>, entry by entry.\<close>

definition make_cfg ::
  "settings \<Rightarrow> real list list \<Rightarrow> object \<Rightarrow> real list \<Rightarrow> real list \<Rightarrow> real list \<Rightarrow> real list
     \<Rightarrow> volume \<Rightarrow> matrix \<Rightarrow> error + cfg" where
  "make_cfg self parameters obj loc dir srcparam1 srcparam2 vol affine_matrix =
     bind_e (at2 affine_matrix 0 3) (\<lambda>m0.
     bind_e (at2 affine_matrix 1 3) (\<lambda>m1.
     bind_e (at2 affine_matrix 2 3) (\<lambda>m2.
     bind_e (at2 affine_matrix 0 0) (\<lambda>s0.
     bind_e (at2 affine_matrix 1 1) (\<lambda>s1.
     bind_e (at2 affine_matrix 2 2) (\<lambda>s2.
     let move = [m0, m1, m2]; scale = [s0, s1, s2] in
     bind_e (subscript (prop_srctype obj) ''srctype'') (\<lambda>srctype0.
     bind_e (np_elementwise (-) loc move) (\<lambda>shifted.
     bind_e (np_elementwise (/) shifted scale) (\<lambda>srcpos.
     bind_e (np_elementwise (/) srcparam1 (scale @ [1])) (\<lambda>sp1.
     bind_e (np_elementwise (/) srcparam2 (scale @ [1])) (\<lambda>sp2.
     bind_e (subscript (prop_srctype obj) ''srctype'') (\<lambda>srctype.
     bind_e (subscript (prop_unitinmm obj) ''unitinmm'') (\<lambda>unitinmm.
     Inr \<lparr>cfg_vol = vol, cfg_prop = parameters, cfg_srctype = srctype, cfg_srcpos = srcpos,
          cfg_srcdir = dir, cfg_srcparam1 = sp1, cfg_srcparam2 = sp2,
          cfg_nphoton = nphoton self, cfg_unitinmm = unitinmm * scale ! 0, cfg_tstart = 0,
          cfg_tend = tend self, cfg_tstep = tstep self, cfg_isreflect = isreflect self,
          cfg_isnormalized = isnormalized self, cfg_method = mmc_method self,
          cfg_outputtype = outputtype self, cfg_basisorder = basisorder self,
          cfg_debuglevel = debuglevel self, cfg_gpuid = gpuid self\<rparr>)))))))))))))"

text \<open>
  \<^verbatim>\<open>a[:, :, :, 0]\<close> of a four-dimensional array: index \<open>0\<close> of the last axis, an
  IndexError when that axis is empty. The array is a rectangular nesting of lists.
\<close>

definition first_gate :: "real list list list list \<Rightarrow> error + real list list list" where
  "first_gate a =
     (if list_all (list_all (list_all (\<lambda>ts. ts \<noteq> []))) a
      then Inr (map (map (map (\<lambda>ts. ts ! 0))) a)
      else Inl IndexError)"

text \<open>Line 118: \<^verbatim>\<open>np.log10(res['flux'][:,:,:,0]/res['stat']['normalizer']+1)\<close>\<close>

definition plot_flux :: "solver_result \<Rightarrow> error + real list list list" where
  "plot_flux res =
     bind_e (subscript (res_flux res) ''flux'') (\<lambda>a.
     bind_e (first_gate a) (\<lambda>a0.
     bind_e (subscript (res_stat res) ''stat'') (\<lambda>stat.
     bind_e (subscript (map_of stat ''normalizer'') ''normalizer'') (\<lambda>normalizer.
     Inr (map (map (map (\<lambda>f. log 10 (f / normalizer + 1)))) a0)))))"

definition preparemmc :: "(cfg \<Rightarrow> error + solver_result) \<Rightarrow> settings \<Rightarrow> unit io" where
  "preparemmc pmcx_run self =
     bind_io (\<lambda>w. lift_io (gather_parameters w) w) (\<lambda>parameters.
     bind_io (\<lambda>w. lift_io (get_object w ''source'') w) (\<lambda>obj.
     let loc = list_of_vec3 (location obj) in
     bind_io (set_context_rotation_mode ''QUATERNION'') (\<lambda>_.
     bind_io (\<lambda>w. lift_io (context_rotation_quaternion w) w) (\<lambda>direction.
     let dir = quaternion2euler direction in
     bind_io (lift_io (subscript (prop_srcparam1 obj) ''srcparam1'')) (\<lambda>srcparam1.
     bind_io (lift_io (subscript (prop_srcparam2 obj) ''srcparam2'')) (\<lambda>srcparam2.
     bind_io ensure_workdir (\<lambda>_.
     bind_io (loadmat ''ImageMesh.mat'') (\<lambda>mat1.
     bind_io (lift_io (subscript (mat_image mat1) ''image'')) (\<lambda>vol.
     bind_io (loadmat ''ImageMesh.mat'') (\<lambda>mat2.
     bind_io (lift_io (subscript (mat_scale mat2) ''scale'')) (\<lambda>affine_matrix.
     bind_io (lift_io (make_cfg self parameters obj loc dir srcparam1 srcparam2 vol affine_matrix)) (\<lambda>c.
     bind_io (jd_save (InfoFile parameters c) ''mmcinfo.json'') (\<lambda>_.
     bind_io (run_solver pmcx_run c) (\<lambda>res.
     bind_io (jd_save (ResultFile res) ''mcx_result.json'') (\<lambda>_.
     bind_io (lift_io (plot_flux res)) (\<lambda>flux.
     bind_io (jd_save (PlotFile flux affine_matrix) ''plot_result.json'') (\<lambda>_.
     bind_io (\<lambda>w. remove_all (objects w) w) (\<lambda>_.
     orphans_purge True))))))))))))))))))"

definition execute :: "(cfg \<Rightarrow> error + solver_result) \<Rightarrow> settings \<Rightarrow> string set io" where
  "execute pmcx_run self = bind_io (preparemmc pmcx_run self) (\<lambda>_. return_io {''FINISHED''})"

subsection \<open>Reading the trace\<close>

definition is_run :: "event \<Rightarrow> bool" where
  "is_run ev = (case ev of Run _ \<Rightarrow> True | _ \<Rightarrow> False)"

definition is_save :: "event \<Rightarrow> bool" where
  "is_save ev = (case ev of Save _ _ \<Rightarrow> True | _ \<Rightarrow> False)"

text \<open>The effects between an earlier world and a later one.\<close>

definition effects :: "world \<Rightarrow> world \<Rightarrow> event list" where
  "effects w w' = drop (length (trace w)) (trace w')"

text \<open>The rows the loop of the \<^verbatim>\<open>except\<close> branch appends for a list of objects.\<close>

definition region_rows :: "object list \<Rightarrow> real list list" where
  "region_rows objs = map (\<lambda>obj. [the (prop_mua obj), the (prop_mus obj), the (prop_g obj), the (prop_n obj)])
     (filter (\<lambda>obj. prop_mua obj \<noteq> None) objs)"

subsection \<open>Example scenes\<close>

definition blank_object :: "string \<Rightarrow> object" where
  "blank_object nm = \<lparr>name = nm, location = (0, 0, 0), rotation_mode = ''XYZ'',
     rotation_quaternion = (1, 0, 0, 0), data = None, prop_mua = None, prop_mus = None,
     prop_g = None, prop_n = None, prop_srctype = None, prop_srcparam1 = None,
     prop_srcparam2 = None, prop_unitinmm = None\<rparr>"

definition example_region :: object where
  "example_region = (blank_object ''region_1'')\<lparr>data := Some [],
     prop_mua := Some (1 / 100), prop_mus := Some 10, prop_g := Some (9 / 10),
     prop_n := Some (137 / 100)\<rparr>"

definition example_source :: object where
  "example_source = (blank_object ''source'')\<lparr>location := (3, 6, 13),
     rotation_quaternion := (1 / 2, 1 / 2, 1 / 2, 1 / 2),
     prop_srctype := Some ''pencil'', prop_srcparam1 := Some [2, 4, 5, 7],
     prop_srcparam2 := Some [0, 0, 0, 0], prop_unitinmm := Some 3\<rparr>"

definition example_mat :: mat_file where
  "example_mat = \<lparr>mat_image = Some [[[1]]],
     mat_scale = Some [[2, 0, 0, 1], [0, 4, 0, 2], [0, 0, 5, 3], [0, 0, 0, 1]]\<rparr>"

definition example_world :: world where
  "example_world = \<lparr>objects = [example_region, example_source], active = Some ''source'',
     workdir = Directory, files = [''ImageMesh.mat'' \<mapsto> MatFile example_mat], trace = []\<rparr>"

definition example_settings :: settings where
  "example_settings = \<lparr>tool = ''1'', nphoton = 10000, tend = 5 / 10 ^ 9, tstep = 5 / 10 ^ 9,
     isreflect = True, isnormalized = True, basisorder = 1, mmc_method = ''grid'',
     outputtype = ''flux'', gpuid = ''1'', debuglevel = ''TP'', colormap = ''jet''\<rparr>"

definition example_result :: solver_result where
  "example_result = \<lparr>res_flux = Some [[[[0, 5], [18, 1]]]],
     res_stat = Some [(''normalizer'', 2)], res_other = []\<rparr>"

definition example_solver :: "cfg \<Rightarrow> error + solver_result" where
  "example_solver c = Inr example_result"

text \<open>The same scene with the tissue region as the active object.\<close>

definition region_active_world :: world where
  "region_active_world = example_world\<lparr>active := Some ''region_1''\<rparr>"

text \<open>
  A scene with an object \<^verbatim>\<open>Iso2Mesh\<close> whose data block has an array property followed
  by a string property.
\<close>

definition example_iso2mesh :: object where
  "example_iso2mesh = (blank_object ''Iso2Mesh'')\<lparr>data :=
     Some [(''prop_1'', Arr [0, 0, 1, 1]), (''label'', Str ''skin'')]\<rparr>"

definition mixed_props_world :: world where
  "mixed_props_world = example_world\<lparr>objects := [example_iso2mesh, example_region, example_source]\<rparr>"


section \<open>Properties\<close>

subsection \<open>The direction conversion in closed form\<close>

lemma quaternion2euler_closed_form:
  "quaternion2euler (w, x, y, z) =
     [- (2 * x * z + 2 * y * w), - (2 * y * z - 2 * x * w), - (1 - 2 * x ^ 2 - 2 * y ^ 2)]"
  by (simp add: quaternion2euler_def np_dot_def np_transpose_def Let_def)

text \<open>
  For a unit quaternion the textbook matrix is the rotation \<open>v \<mapsto> q v q*\<close> computed with
  Hamilton's product, which is what makes it the rotation matrix of the quaternion.
\<close>

lemma rotation_matrix_is_conjugation:
  assumes "qnorm2 q = 1"
  shows "conjugate_by q v = (case mat_vec (rotation_matrix q) v of (a, b, c) \<Rightarrow> (0, a, b, c))"
proof -
  obtain w x y z where q: "q = (w, x, y, z)" by (cases q) auto
  obtain a b c where v: "v = (a, b, c)" by (cases v) auto
  from assms q have u: "w * w = 1 - x * x - y * y - z * z"
    by (simp add: qnorm2_def power2_eq_square)
  have e1: "(w * w) * a + x * x * a - y * y * a - z * z * a = (1 - 2 * (y * y + z * z)) * a"
    unfolding u by (simp add: algebra_simps)
  have e2: "(w * w) * b - x * x * b + y * y * b - z * z * b = (1 - 2 * (x * x + z * z)) * b"
    unfolding u by (simp add: algebra_simps)
  have e3: "(w * w) * c - x * x * c - y * y * c + z * z * c = (1 - 2 * (x * x + y * y)) * c"
    unfolding u by (simp add: algebra_simps)
  show ?thesis
    using e1 e2 e3
    by (simp add: q v conjugate_by_def qmul_def qconj_def mat_vec_def rotation_matrix_def
        inner3_def algebra_simps)
qed

subsection \<open>When a step succeeds\<close>

lemma bind_e_Inr: "bind_e m f = Inr y \<longleftrightarrow> (\<exists>x. m = Inr x \<and> f x = Inr y)"
  by (cases m) (simp_all add: bind_e_def)

lemma subscript_Inr: "subscript v key = Inr x \<longleftrightarrow> v = Some x"
  by (cases v) (auto simp: subscript_def)

lemma bind_io_Inr:
  "bind_io m f w = (Inr y, w') \<longleftrightarrow> (\<exists>x w1. m w = (Inr x, w1) \<and> f x w1 = (Inr y, w'))"
  by (cases "m w"; cases "fst (m w)") (auto simp: bind_io_def)

lemma lift_io_Inr: "lift_io r w = (Inr x, w') \<longleftrightarrow> r = Inr x \<and> w' = w"
  by (auto simp: lift_io_def)


lemma set_context_rotation_mode_Inr:
  "set_context_rotation_mode m w = (Inr u, w') \<longleftrightarrow>
     (\<exists>act. context_object w = Some act \<and>
        w' = w\<lparr>objects := map (\<lambda>ob. if name ob = name act then ob\<lparr>rotation_mode := m\<rparr> else ob)
                              (objects w)\<rparr>)"
  by (auto simp: set_context_rotation_mode_def split: option.splits)

lemma ensure_workdir_Inr:
  "ensure_workdir w = (Inr u, w') \<longleftrightarrow>
     (workdir w = Directory \<and> w' = w) \<or>
     (workdir w = Absent \<and> w' = emit Makedirs (w\<lparr>workdir := Directory, files := Map.empty\<rparr>))"
  by (auto simp: ensure_workdir_def makedirs_def split: path_kind.splits)

lemma loadmat_Inr:
  "loadmat nm w = (Inr m, w') \<longleftrightarrow>
     workdir w = Directory \<and> files w nm = Some (MatFile m) \<and> w' = emit (Loadmat nm) w"
  by (auto simp: loadmat_def Let_def split: option.splits file_content.splits)

lemma jd_save_Inr:
  "jd_save c nm w = (Inr u, w') \<longleftrightarrow> w' = emit (Save nm c) (w\<lparr>files := (files w)(nm \<mapsto> c)\<rparr>)"
  by (auto simp: jd_save_def)

lemma run_solver_Inr:
  "run_solver pmcx_run c w = (Inr res, w') \<longleftrightarrow> pmcx_run c = Inr res \<and> w' = emit (Run c) w"
  by (auto simp: run_solver_def)

lemma orphans_purge_Inr:
  "orphans_purge b w = (Inr u, w') \<longleftrightarrow> w' = emit (OrphansPurge b) w"
  by (auto simp: orphans_purge_def)

subsection \<open>The removal loop\<close>

lemma remove_all_eq:
  "remove_all obs w =
     (Inr (), w\<lparr>objects := filter (\<lambda>ob. name ob \<notin> name ` set obs) (objects w),
               trace := trace w @ map (\<lambda>ob. Remove (name ob)) obs\<rparr>)"
proof (induction obs arbitrary: w)
  case Nil
  show ?case by (simp add: return_io_def)
next
  case (Cons ob obs)
  show ?case
    by (simp add: bind_io_def remove_object_def emit_def Cons.IH)
qed

lemma filter_names_all: "filter (\<lambda>ob. name ob \<notin> name ` set obs) obs = []"
  by (auto simp: filter_empty_conv)

lemma remove_all_objects:
  "remove_all (objects w) w = (Inr u, w') \<longleftrightarrow>
     w' = w\<lparr>objects := [], trace := trace w @ map (\<lambda>ob. Remove (name ob)) (objects w)\<rparr>"
  by (auto simp: remove_all_eq filter_names_all)

subsection \<open>The active object after the rotation mode is set\<close>

lemma find_map_rotation_mode:
  "find (\<lambda>ob. name ob = nm) (map (\<lambda>ob. if name ob = k then ob\<lparr>rotation_mode := m\<rparr> else ob) obs) =
     map_option (\<lambda>ob. if name ob = k then ob\<lparr>rotation_mode := m\<rparr> else ob)
       (find (\<lambda>ob. name ob = nm) obs)"
  by (induction obs) auto

lemma context_rotation_quaternion_after:
  "context_object w = Some act \<Longrightarrow>
   context_rotation_quaternion
     (w\<lparr>objects := map (\<lambda>ob. if name ob = name act then ob\<lparr>rotation_mode := m\<rparr> else ob)
                       (objects w)\<rparr>)
     = Inr (rotation_quaternion act)"
  by (auto simp: context_rotation_quaternion_def context_object_def find_map_rotation_mode
           split: option.splits)

subsection \<open>A run that returns\<close>

lemma preparemmc_trace:
  assumes "preparemmc pmcx_run self w = (Inr u, w')"
  shows "\<exists>parameters obj act sp1 sp2 m vol A c res flux.
     gather_parameters w = Inr parameters \<and> get_object w ''source'' = Inr obj \<and>
     context_object w = Some act \<and>
     prop_srcparam1 obj = Some sp1 \<and> prop_srcparam2 obj = Some sp2 \<and>
     workdir w = Directory \<and> files w ''ImageMesh.mat'' = Some (MatFile m) \<and>
     mat_image m = Some vol \<and> mat_scale m = Some A \<and>
     make_cfg self parameters obj (list_of_vec3 (location obj))
        (quaternion2euler (rotation_quaternion act)) sp1 sp2 vol A = Inr c \<and>
     pmcx_run c = Inr res \<and> plot_flux res = Inr flux \<and>
     objects w' = [] \<and> active w' = active w \<and> workdir w' = Directory \<and>
     files w' = (files w)(''mmcinfo.json'' \<mapsto> InfoFile parameters c,
                          ''mcx_result.json'' \<mapsto> ResultFile res,
                          ''plot_result.json'' \<mapsto> PlotFile flux A) \<and>
     trace w' = trace w @
        [Loadmat ''ImageMesh.mat'', Loadmat ''ImageMesh.mat'',
         Save ''mmcinfo.json'' (InfoFile parameters c), Run c,
         Save ''mcx_result.json'' (ResultFile res),
         Save ''plot_result.json'' (PlotFile flux A)] @
        map (\<lambda>ob. Remove (name ob)) (objects w) @ [OrphansPurge True]"
  using assms unfolding preparemmc_def Let_def
  apply (clarsimp simp: bind_io_Inr lift_io_Inr subscript_Inr set_context_rotation_mode_Inr
     context_rotation_quaternion_after ensure_workdir_Inr loadmat_Inr jd_save_Inr run_solver_Inr
     orphans_purge_Inr remove_all_objects emit_def)
  apply (auto simp: o_def)
  done

lemma preparemmc_success:
  assumes "preparemmc pmcx_run self w = (Inr u, w')"
  shows "\<exists>parameters obj act sp1 sp2 m vol A c res flux.
     gather_parameters w = Inr parameters \<and> get_object w ''source'' = Inr obj \<and>
     context_object w = Some act \<and>
     prop_srcparam1 obj = Some sp1 \<and> prop_srcparam2 obj = Some sp2 \<and>
     workdir w = Directory \<and> files w ''ImageMesh.mat'' = Some (MatFile m) \<and>
     mat_image m = Some vol \<and> mat_scale m = Some A \<and>
     make_cfg self parameters obj (list_of_vec3 (location obj))
        (quaternion2euler (rotation_quaternion act)) sp1 sp2 vol A = Inr c \<and>
     pmcx_run c = Inr res \<and> plot_flux res = Inr flux \<and>
     objects w' = [] \<and> active w' = active w \<and> workdir w' = Directory \<and>
     files w' = (files w)(''mmcinfo.json'' \<mapsto> InfoFile parameters c,
                          ''mcx_result.json'' \<mapsto> ResultFile res,
                          ''plot_result.json'' \<mapsto> PlotFile flux A) \<and>
     effects w w' =
        [Loadmat ''ImageMesh.mat'', Loadmat ''ImageMesh.mat'',
         Save ''mmcinfo.json'' (InfoFile parameters c), Run c,
         Save ''mcx_result.json'' (ResultFile res),
         Save ''plot_result.json'' (PlotFile flux A)] @
        map (\<lambda>ob. Remove (name ob)) (objects w) @ [OrphansPurge True] \<and>
     filter is_run (effects w w') = [Run c] \<and>
     filter is_save (effects w w') =
        [Save ''mmcinfo.json'' (InfoFile parameters c),
         Save ''mcx_result.json'' (ResultFile res),
         Save ''plot_result.json'' (PlotFile flux A)]"
proof -
  from preparemmc_trace [OF assms] obtain parameters obj act sp1 sp2 m vol A c res flux where
    h: "gather_parameters w = Inr parameters" "get_object w ''source'' = Inr obj"
       "context_object w = Some act"
       "prop_srcparam1 obj = Some sp1" "prop_srcparam2 obj = Some sp2"
       "workdir w = Directory" "files w ''ImageMesh.mat'' = Some (MatFile m)"
       "mat_image m = Some vol" "mat_scale m = Some A"
       "make_cfg self parameters obj (list_of_vec3 (location obj))
          (quaternion2euler (rotation_quaternion act)) sp1 sp2 vol A = Inr c"
       "pmcx_run c = Inr res" "plot_flux res = Inr flux"
       "objects w' = []" "active w' = active w" "workdir w' = Directory"
       "files w' = (files w)(''mmcinfo.json'' \<mapsto> InfoFile parameters c,
                          ''mcx_result.json'' \<mapsto> ResultFile res,
                          ''plot_result.json'' \<mapsto> PlotFile flux A)"
    and t: "trace w' = trace w @
        [Loadmat ''ImageMesh.mat'', Loadmat ''ImageMesh.mat'',
         Save ''mmcinfo.json'' (InfoFile parameters c), Run c,
         Save ''mcx_result.json'' (ResultFile res),
         Save ''plot_result.json'' (PlotFile flux A)] @
        map (\<lambda>ob. Remove (name ob)) (objects w) @ [OrphansPurge True]"
    by blast
  have e: "effects w w' =
        [Loadmat ''ImageMesh.mat'', Loadmat ''ImageMesh.mat'',
         Save ''mmcinfo.json'' (InfoFile parameters c), Run c,
         Save ''mcx_result.json'' (ResultFile res),
         Save ''plot_result.json'' (PlotFile flux A)] @
        map (\<lambda>ob. Remove (name ob)) (objects w) @ [OrphansPurge True]"
    by (simp add: effects_def t)
  have r: "filter is_run (effects w w') = [Run c]"
    by (simp add: e is_run_def filter_empty_conv)
  have s: "filter is_save (effects w w') =
        [Save ''mmcinfo.json'' (InfoFile parameters c),
         Save ''mcx_result.json'' (ResultFile res),
         Save ''plot_result.json'' (PlotFile flux A)]"
    by (simp add: e is_save_def filter_empty_conv)
  from h e r s show ?thesis by blast
qed


subsection \<open>Evaluating the examples\<close>

lemmas example_defs = blank_object_def example_region_def example_source_def example_mat_def
  example_world_def example_settings_def example_result_def example_solver_def

lemmas run_defs = execute_def preparemmc_def bind_io_def lift_io_def return_io_def bind_e_def
  gather_parameters_def try_iso2mesh_def get_object_def subscript_def to_list_def
  context_object_def set_context_rotation_mode_def context_rotation_quaternion_def
  makedirs_def ensure_workdir_def loadmat_def jd_save_def run_solver_def remove_object_def
  orphans_purge_def emit_def make_cfg_def at2_def np_elementwise_def first_gate_def
  plot_flux_def list_of_vec3_def quaternion2euler_closed_form Let_def

lemma example_prepare:
  "preparemmc example_solver example_settings example_world =
     (Inr (), snd (preparemmc example_solver example_settings example_world))"
  by (simp add: prod_eq_iff example_defs run_defs)


subsection \<open>The configuration and the plotted flux\<close>

lemma np_elementwise_same_length:
  "length xs = length ys \<Longrightarrow> np_elementwise f xs ys = Inr (map2 f xs ys)"
  by (simp add: np_elementwise_def)

lemma make_cfg_Inr:
  assumes "make_cfg self parameters obj loc dir sp1 sp2 vol A = Inr c"
  shows "\<exists>m0 m1 m2 s0 s1 s2 shifted srcpos q1 q2 srctype unitinmm.
     at2 A 0 3 = Inr m0 \<and> at2 A 1 3 = Inr m1 \<and> at2 A 2 3 = Inr m2 \<and>
     at2 A 0 0 = Inr s0 \<and> at2 A 1 1 = Inr s1 \<and> at2 A 2 2 = Inr s2 \<and>
     prop_srctype obj = Some srctype \<and> prop_unitinmm obj = Some unitinmm \<and>
     np_elementwise (-) loc [m0, m1, m2] = Inr shifted \<and>
     np_elementwise (/) shifted [s0, s1, s2] = Inr srcpos \<and>
     np_elementwise (/) sp1 [s0, s1, s2, 1] = Inr q1 \<and>
     np_elementwise (/) sp2 [s0, s1, s2, 1] = Inr q2 \<and>
     cfg_vol c = vol \<and> cfg_prop c = parameters \<and> cfg_srctype c = srctype \<and>
     cfg_srcpos c = srcpos \<and> cfg_srcdir c = dir \<and> cfg_srcparam1 c = q1 \<and>
     cfg_srcparam2 c = q2 \<and> cfg_unitinmm c = unitinmm * s0"
  using assms unfolding make_cfg_def Let_def
  by (auto simp: bind_e_Inr subscript_Inr)

lemma first_gate_Inr:
  assumes "first_gate a = Inr a0"
  shows "a0 = map (map (map (\<lambda>ts. ts ! 0))) a"
    and "list_all (list_all (list_all (\<lambda>ts. ts \<noteq> []))) a"
  using assms by (auto simp: first_gate_def split: if_splits)


subsection \<open>The two ways of gathering the optical parameters\<close>

lemma append_regions_Inr:
  "append_regions objs parameters = Inr r \<Longrightarrow> r = parameters @ region_rows objs"
proof (induction objs arbitrary: parameters)
  case Nil
  then show ?case by (simp add: region_rows_def)
next
  case (Cons obj objs)
  show ?case
  proof (cases "prop_mua obj = None")
    case True
    with Cons show ?thesis by (simp add: region_rows_def)
  next
    case False
    with Cons.prems obtain mua mus g n where
      v: "prop_mua obj = Some mua" "prop_mus obj = Some mus" "prop_g obj = Some g"
         "prop_n obj = Some n"
      and rest: "append_regions objs (parameters @ [[mua, mus, g, n]]) = Inr r"
      by (auto simp: bind_e_Inr subscript_Inr)
    from Cons.IH [OF rest] v show ?thesis by (simp add: region_rows_def)
  qed
qed

lemma gather_parameters_fallback:
  assumes "try_iso2mesh w [] = (Some e, partial)" and "gather_parameters w = Inr r"
  shows "r = partial @ region_rows (butlast (objects w))"
  using assms by (auto simp: gather_parameters_def dest: append_regions_Inr)

lemma gather_parameters_no_iso2mesh:
  assumes "get_object w ''Iso2Mesh'' = Inl e" and "gather_parameters w = Inr r"
  shows "r = region_rows (butlast (objects w))"
proof -
  from assms(1) have "try_iso2mesh w [] = (Some e, [])"
    by (simp add: try_iso2mesh_def)
  from gather_parameters_fallback [OF this assms(2)] show ?thesis by simp
qed

subsection \<open>Where the direction comes from\<close>

lemma srcdir_from_context_object:
  assumes "preparemmc pmcx_run self w = (Inr u, w')"
  shows "\<exists>c act. filter is_run (effects w w') = [Run c] \<and> context_object w = Some act \<and>
     cfg_srcdir c = quaternion2euler (rotation_quaternion act)"
proof -
  from preparemmc_success [OF assms] obtain parameters obj act sp1 sp2 vol A c where
    a: "context_object w = Some act"
    and c: "make_cfg self parameters obj (list_of_vec3 (location obj))
          (quaternion2euler (rotation_quaternion act)) sp1 sp2 vol A = Inr c"
    and r: "filter is_run (effects w w') = [Run c]"
    by blast
  from make_cfg_Inr [OF c]
  have "cfg_srcdir c = quaternion2euler (rotation_quaternion act)" by blast
  with a r show ?thesis by blast
qed

subsection \<open>A missing work folder\<close>







subsection \<open>The pipeline of a run\<close>



subsection \<open>The source direction\<close>

text \<open>
  Claim C2. The claim reads: the direction written to \<^verbatim>\<open>cfg['srcdir']\<close> comes from the
  rotation quaternion of the object named \<^verbatim>\<open>source\<close>. The operator reads the quaternion
  of the active object instead (lemma \<open>srcdir_from_context_object\<close>). In the scene
  below the object \<^verbatim>\<open>source\<close> exists and supplies the position, the tissue region is
  active, and the direction handed to the solver is the region's, not the source's.
\<close>

theorem srcdir_of_active_region:
  "\<exists>w' c. preparemmc example_solver example_settings region_active_world = (Inr (), w') \<and>
     filter is_run (effects region_active_world w') = [Run c] \<and>
     get_object region_active_world ''source'' = Inr example_source \<and>
     cfg_srcpos c = [1, 1, 2] \<and>
     cfg_srcdir c = quaternion2euler (rotation_quaternion example_region) \<and>
     cfg_srcdir c = [0, 0, - 1] \<and>
     quaternion2euler (rotation_quaternion example_source) = [- 1, 0, 0]"
proof -
  let ?w' = "snd (preparemmc example_solver example_settings region_active_world)"
  have run: "preparemmc example_solver example_settings region_active_world = (Inr (), ?w')"
    by (simp add: prod_eq_iff region_active_world_def example_defs run_defs)
  from preparemmc_success [OF run] obtain parameters obj act sp1 sp2 m vol A c where
    o: "get_object region_active_world ''source'' = Inr obj"
    and a: "context_object region_active_world = Some act"
    and s: "prop_srcparam1 obj = Some sp1" "prop_srcparam2 obj = Some sp2"
    and m: "files region_active_world ''ImageMesh.mat'' = Some (MatFile m)"
       "mat_scale m = Some A"
    and c: "make_cfg example_settings parameters obj (list_of_vec3 (location obj))
          (quaternion2euler (rotation_quaternion act)) sp1 sp2 vol A = Inr c"
    and f: "filter is_run (effects region_active_world ?w') = [Run c]"
    by blast
  have obj: "obj = example_source"
    using o by (simp add: region_active_world_def example_defs get_object_def)
  have act: "act = example_region"
    using a by (simp add: region_active_world_def example_defs context_object_def)
  have A: "A = [[2, 0, 0, 1], [0, 4, 0, 2], [0, 0, 5, 3], [0, 0, 0, 1]]"
    using m by (auto simp: region_active_world_def example_defs)
  from make_cfg_Inr [OF c] obtain tx ty tz sx sy sz shifted srcpos where
    e: "at2 A 0 3 = Inr tx" "at2 A 1 3 = Inr ty" "at2 A 2 3 = Inr tz"
       "at2 A 0 0 = Inr sx" "at2 A 1 1 = Inr sy" "at2 A 2 2 = Inr sz"
    and n: "np_elementwise (-) (list_of_vec3 (location obj)) [tx, ty, tz] = Inr shifted"
       "np_elementwise (/) shifted [sx, sy, sz] = Inr srcpos"
    and r: "cfg_srcpos c = srcpos" "cfg_srcdir c = quaternion2euler (rotation_quaternion act)"
    by blast
  from e have v: "tx = 1" "ty = 2" "tz = 3" "sx = 2" "sy = 4" "sz = 5"
    by (simp_all add: A at2_def)
  from n(1) have sh: "shifted = [2, 4, 10]"
    by (simp add: obj v example_defs list_of_vec3_def np_elementwise_def)
  from n(2) have p: "srcpos = [1, 1, 2]"
    by (simp add: sh v np_elementwise_def)
  have e1: "quaternion2euler (rotation_quaternion example_region) = [0, 0, - 1]"
    by (simp add: example_defs quaternion2euler_closed_form)
  have e2: "quaternion2euler (rotation_quaternion example_source) = [- 1, 0, 0]"
    by (simp add: example_defs quaternion2euler_closed_form power2_eq_square)
  from run f o obj p r act e1 e2 show ?thesis by auto
qed

subsection \<open>The direction is the rotated downward axis\<close>

text \<open>
  Claim C3. For every quaternion \<open>(w, x, y, z)\<close>, \<^verbatim>\<open>quaternion2euler\<close> returns the
  product of the rotation matrix of the quaternion (the textbook matrix, which lemma
  \<open>rotation_matrix_is_conjugation\<close> ties to Hamilton's product) with the column
  \<open>(0, 0, -1)\<close>; for the identity quaternion it returns \<open>[0, 0, -1]\<close>.
\<close>

theorem quaternion2euler_rotates_minus_z:
  "quaternion2euler (w, x, y, z) =
     list_of_vec3 (mat_vec (rotation_matrix (w, x, y, z)) (0, 0, - 1)) \<and>
   quaternion2euler (1, 0, 0, 0) = [0, 0, - 1]"
  by (simp add: quaternion2euler_closed_form list_of_vec3_def mat_vec_def rotation_matrix_def
      inner3_def power2_eq_square algebra_simps)

subsection \<open>The affine rescaling of the source\<close>



subsection \<open>The solver's result is stored as it is\<close>

text \<open>
  Claim C5. The operator computes no photon transport of its own: in a run that returns,
  the solver is called once, \<^verbatim>\<open>mcx_result.json\<close> holds exactly the value that call
  returned, and the flux stored in \<^verbatim>\<open>plot_result.json\<close> is a function of that value
  alone (\<open>plot_flux\<close>). The matrix stored beside the flux is the one read from
  \<^verbatim>\<open>ImageMesh.mat\<close>.
\<close>

theorem solver_result_stored_unmodified:
  assumes "preparemmc pmcx_run self w = (Inr u, w')"
  shows "\<exists>c res flux m A.
     filter is_run (effects w w') = [Run c] \<and> pmcx_run c = Inr res \<and>
     files w' ''mcx_result.json'' = Some (ResultFile res) \<and>
     plot_flux res = Inr flux \<and>
     files w ''ImageMesh.mat'' = Some (MatFile m) \<and> mat_scale m = Some A \<and>
     files w' ''plot_result.json'' = Some (PlotFile flux A)"
proof -
  from preparemmc_success [OF assms] obtain parameters m A c res flux where
    h: "filter is_run (effects w w') = [Run c]" "pmcx_run c = Inr res"
       "plot_flux res = Inr flux"
       "files w ''ImageMesh.mat'' = Some (MatFile m)" "mat_scale m = Some A"
    and f: "files w' = (files w)(''mmcinfo.json'' \<mapsto> InfoFile parameters c,
                          ''mcx_result.json'' \<mapsto> ResultFile res,
                          ''plot_result.json'' \<mapsto> PlotFile flux A)"
    by blast
  have "files w' ''mcx_result.json'' = Some (ResultFile res)"
    and "files w' ''plot_result.json'' = Some (PlotFile flux A)"
    by (simp_all add: f)
  with h show ?thesis by blast
qed

theorem solver_result_stored_unmodified_witness:
  "\<exists>w'. preparemmc example_solver example_settings example_world = (Inr (), w') \<and>
     files w' ''mcx_result.json'' = Some (ResultFile example_result)"
proof -
  from solver_result_stored_unmodified [OF example_prepare] obtain c res where
    "example_solver c = Inr res"
    "files (snd (preparemmc example_solver example_settings example_world)) ''mcx_result.json''
       = Some (ResultFile res)"
    by blast
  then show ?thesis using example_prepare by (auto simp: example_solver_def)
qed

subsection \<open>The files of a run\<close>



subsection \<open>The direction of a unit quaternion has length one\<close>

text \<open>
  Claim C7. For a unit quaternion, \<open>w\<^sup>2 + x\<^sup>2 + y\<^sup>2 + z\<^sup>2 = 1\<close>, the vector returned by
  \<^verbatim>\<open>quaternion2euler\<close> has Euclidean norm \<open>1\<close>.
\<close>

theorem quaternion2euler_unit_norm:
  assumes "w ^ 2 + x ^ 2 + y ^ 2 + z ^ 2 = 1"
  shows "norm3 (quaternion2euler (w, x, y, z)) = 1"
proof -
  have "(- (2 * x * z + 2 * y * w)) ^ 2 +
        ((- (2 * y * z - 2 * x * w)) ^ 2 + (- (1 - 2 * x ^ 2 - 2 * y ^ 2)) ^ 2)
      = 1 + 4 * (x ^ 2 + y ^ 2) * (w ^ 2 + x ^ 2 + y ^ 2 + z ^ 2 - 1)"
    by (simp add: power2_eq_square algebra_simps)
  also have "\<dots> = 1" using assms by simp
  finally have "sum_list (map (\<lambda>c. c ^ 2) (quaternion2euler (w, x, y, z))) = 1"
    by (simp only: quaternion2euler_closed_form list.map sum_list.Cons sum_list.Nil add_0_right)
  then show ?thesis
    by (simp add: norm3_def)
qed

theorem quaternion2euler_unit_norm_witness:
  "(1 / 2) ^ 2 + (1 / 2) ^ 2 + (1 / 2) ^ 2 + (1 / 2) ^ 2 = (1 :: real) \<and>
   norm3 (quaternion2euler (1 / 2, 1 / 2, 1 / 2, 1 / 2)) = 1"
proof -
  have h: "(1 / 2) ^ 2 + (1 / 2) ^ 2 + (1 / 2) ^ 2 + (1 / 2) ^ 2 = (1 :: real)"
    by (simp add: power2_eq_square)
  from h quaternion2euler_unit_norm [OF h] show ?thesis by simp
qed

subsection \<open>The scene after a run\<close>

text \<open>
  Claim C8. After a run that returns no object is left in the scene: every object that
  was in \<^verbatim>\<open>bpy.data.objects\<close> has been removed, one removal per object in collection
  order, and the recursive purge of orphaned data blocks is the last effect of the run.
  Neither a tissue region nor the light source can be looked up afterwards.
\<close>

theorem scene_emptied:
  assumes "preparemmc pmcx_run self w = (Inr u, w')"
  shows "objects w' = [] \<and> context_object w' = None \<and>
     (\<forall>nm. get_object w' nm = Inl (KeyError nm)) \<and>
     (\<exists>earlier. effects w w' =
        earlier @ map (\<lambda>ob. Remove (name ob)) (objects w) @ [OrphansPurge True] \<and>
        Run ` UNIV \<inter> set earlier \<noteq> {} \<and>
        (\<forall>ev \<in> set earlier. case ev of Remove _ \<Rightarrow> False | OrphansPurge _ \<Rightarrow> False | _ \<Rightarrow> True))"
proof -
  from preparemmc_success [OF assms] obtain parameters A c res flux where
    o: "objects w' = []"
    and e: "effects w w' =
        [Loadmat ''ImageMesh.mat'', Loadmat ''ImageMesh.mat'',
         Save ''mmcinfo.json'' (InfoFile parameters c), Run c,
         Save ''mcx_result.json'' (ResultFile res),
         Save ''plot_result.json'' (PlotFile flux A)] @
        map (\<lambda>ob. Remove (name ob)) (objects w) @ [OrphansPurge True]"
    by blast
  have 1: "context_object w' = None"
    by (simp add: context_object_def o split: option.splits)
  have 2: "\<forall>nm. get_object w' nm = Inl (KeyError nm)"
    by (simp add: get_object_def o)
  let ?earlier = "[Loadmat ''ImageMesh.mat'', Loadmat ''ImageMesh.mat'',
         Save ''mmcinfo.json'' (InfoFile parameters c), Run c,
         Save ''mcx_result.json'' (ResultFile res),
         Save ''plot_result.json'' (PlotFile flux A)]"
  have 3: "Run ` UNIV \<inter> set ?earlier \<noteq> {}" by auto
  have 4: "\<forall>ev \<in> set ?earlier. case ev of Remove _ \<Rightarrow> False | OrphansPurge _ \<Rightarrow> False | _ \<Rightarrow> True"
    by simp
  from e 3 4 have "\<exists>earlier. effects w w' =
        earlier @ map (\<lambda>ob. Remove (name ob)) (objects w) @ [OrphansPurge True] \<and>
        Run ` UNIV \<inter> set earlier \<noteq> {} \<and>
        (\<forall>ev \<in> set earlier. case ev of Remove _ \<Rightarrow> False | OrphansPurge _ \<Rightarrow> False | _ \<Rightarrow> True)"
    by blast
  with o 1 2 show ?thesis by blast
qed

theorem scene_emptied_witness:
  "\<exists>w'. preparemmc example_solver example_settings example_world = (Inr (), w') \<and>
     objects example_world = [example_region, example_source] \<and> objects w' = [] \<and>
     get_object w' ''source'' = Inl (KeyError ''source'') \<and>
     get_object w' ''region_1'' = Inl (KeyError ''region_1'')"
  using example_prepare scene_emptied [OF example_prepare]
  by (auto simp: example_world_def)

subsection \<open>The plotted flux\<close>



subsection \<open>The fallback of the optical parameters\<close>

text \<open>
  Claim C10. The claim reads: when reading \<^verbatim>\<open>Iso2Mesh\<close> or one of its mesh properties
  raises, the parameter list is built instead from the scene objects but the last, one
  row \<open>[mua, mus, g, n]\<close> for each object that has \<^verbatim>\<open>mua\<close>, in scene order. That is what
  the operator does when the exception comes before the first row (lemma
  \<open>gather_parameters_no_iso2mesh\<close>). When a later property raises, the rows already
  appended stay in the list in front of the fallback rows (lemma
  \<open>gather_parameters_fallback\<close>). In the scene below the second mesh property is a
  string: the list starts with the row of the first property.
\<close>

theorem gather_parameters_keeps_partial_rows:
  "try_iso2mesh mixed_props_world [] = (Some AttributeError, [[0, 0, 1, 1]]) \<and>
   region_rows (butlast (objects mixed_props_world)) = [[1 / 100, 10, 9 / 10, 137 / 100]] \<and>
   gather_parameters mixed_props_world = Inr [[0, 0, 1, 1], [1 / 100, 10, 9 / 10, 137 / 100]]"
proof (intro conjI)
  show "try_iso2mesh mixed_props_world [] = (Some AttributeError, [[0, 0, 1, 1]])"
    by (simp add: mixed_props_world_def example_iso2mesh_def example_defs try_iso2mesh_def
        get_object_def to_list_def)
  then show "gather_parameters mixed_props_world
      = Inr [[0, 0, 1, 1], [1 / 100, 10, 9 / 10, 137 / 100]]"
    by (simp add: gather_parameters_def)
      (simp add: mixed_props_world_def example_iso2mesh_def example_defs bind_e_def
        subscript_def)
  have b: "butlast (objects mixed_props_world) = [example_iso2mesh, example_region]"
    by (simp add: mixed_props_world_def)
  have i: "prop_mua example_iso2mesh = None"
    by (simp add: example_iso2mesh_def blank_object_def)
  have n: "prop_mua example_region \<noteq> None"
    by (simp add: example_region_def blank_object_def)
  have v: "the (prop_mua example_region) = 1 / 100" "the (prop_mus example_region) = 10"
    "the (prop_g example_region) = 9 / 10" "the (prop_n example_region) = 137 / 100"
    by (simp_all add: example_region_def blank_object_def)
  have "filter (\<lambda>obj. prop_mua obj \<noteq> None) [example_iso2mesh, example_region]
      = [example_region]"
    using i n by simp
  then show "region_rows (butlast (objects mixed_props_world))
      = [[1 / 100, 10, 9 / 10, 137 / 100]]"
    unfolding region_rows_def b by (simp only: list.map v)
qed

end
